theory Spec2Isabelle
  imports Main
begin

section \<open>Errors and status codes\<close>

text \<open>
  \<^verbatim>\<open>HttpError\<close> (utils/http-error) is the error the services throw: a status code
  and a message. Every other JavaScript error (a driver failure, a \<^verbatim>\<open>TypeError\<close>) is
  \<open>OtherError\<close>; \<^verbatim>\<open>e instanceof HttpError\<close> is the test on the constructor.
\<close>

datatype exn = HttpError nat string | OtherError string

text \<open>The members of \<^verbatim>\<open>StatusCodes\<close> (package http-status-codes) the two files use.\<close>

definition OK :: nat where "OK = 200"
definition BAD_REQUEST :: nat where "BAD_REQUEST = 400"
definition UNAUTHORIZED :: nat where "UNAUTHORIZED = 401"
definition NOT_FOUND :: nat where "NOT_FOUND = 404"
definition CONFLICT :: nat where "CONFLICT = 409"
definition INTERNAL_SERVER_ERROR :: nat where "INTERNAL_SERVER_ERROR = 500"
definition NOT_IMPLEMENTED :: nat where "NOT_IMPLEMENTED = 501"

lemmas StatusCodes =
  OK_def BAD_REQUEST_def UNAUTHORIZED_def NOT_FOUND_def CONFLICT_def
  INTERNAL_SERVER_ERROR_def NOT_IMPLEMENTED_def

section \<open>The theme service (services/theme-service.ts)\<close>

subsection \<open>Rows and themes\<close>

type_synonym themeColors = "(string \<times> string) list"

text \<open>
  A row of the table \<^verbatim>\<open>app.themes\<close>, with the columns the statements name:
  \<^verbatim>\<open>id, user_id, label, colors, custom_css, custom_html, global\<close>. A column that
  may be \<^verbatim>\<open>NULL\<close> is an option; \<^verbatim>\<open>user_id\<close> is \<^verbatim>\<open>NULL\<close> for a theme nobody owns.
\<close>

record dbTheme =
  db_id :: string
  db_user_id :: "string option"
  db_label :: string
  db_colors :: "themeColors option"
  db_custom_css :: "string option"
  db_custom_html :: "string option"
  db_global :: bool

record theme =
  th_id :: string
  th_userId :: "string option"
  th_label :: string
  th_colors :: "themeColors option"
  th_customCss :: "string option"
  th_customHtml :: "string option"
  th_global :: bool

text \<open>
  Modelled from the spec: \<^verbatim>\<open>DbTypeConverter.toTheme\<close> (utils/db-type-converter, not
  among the source files) "maps raw database row shapes to public-facing domain
  objects (raw theme row \<rightarrow> Theme)": every column becomes the field of the same
  meaning.
\<close>

definition toTheme :: "dbTheme \<Rightarrow> theme" where
  "toTheme r =
     \<lparr> th_id = db_id r, th_userId = db_user_id r, th_label = db_label r,
       th_colors = db_colors r, th_customCss = db_custom_css r,
       th_customHtml = db_custom_html r, th_global = db_global r \<rparr>"

text \<open>
  The table is the list of its rows, in the order the database returns them. A
  statement with \<^verbatim>\<open>returning *\<close> yields the rows it touched; \<^verbatim>\<open>rowCount\<close> is their
  number. A comparison \<^verbatim>\<open>user_id=$n\<close> with a \<^verbatim>\<open>NULL\<close> column is not true, so a row
  without owner matches no user.
\<close>

type_synonym themes = "dbTheme list"

subsection \<open>Reading\<close>

text \<open>\<^verbatim>\<open>select * from app.themes where id=$1\<close>\<close>

definition getTheme :: "string \<Rightarrow> themes \<Rightarrow> exn + theme" where
  "getTheme themeId tbl =
     (let rows = filter (\<lambda>r. db_id r = themeId) tbl in
      if length rows \<le> 0
      then Inl (HttpError NOT_FOUND ''The theme couldn't be found.'')
      else Inr (toTheme (rows ! 0)))"

text \<open>
  \<^verbatim>\<open>select * from app.themes where user_id=$1 or global=true\<close> when
  \<open>includeGlobal\<close>, \<^verbatim>\<open>select * from app.themes where user_id=$1\<close> otherwise.
\<close>

definition listThemes :: "string \<Rightarrow> bool \<Rightarrow> themes \<Rightarrow> exn + theme list" where
  "listThemes userId includeGlobal tbl =
     (let rows =
        (if includeGlobal
         then filter (\<lambda>r. db_user_id r = Some userId \<or> db_global r = True) tbl
         else filter (\<lambda>r. db_user_id r = Some userId) tbl) in
      if length rows \<le> 0
      then Inl (HttpError NOT_FOUND ''No themes were found.'')
      else Inr (map (\<lambda>x. toTheme x) rows))"

subsection \<open>Writing\<close>

text \<open>
  \<^verbatim>\<open>update app.themes set label=$1, colors=$2, custom_css=$3, custom_html=$4
  where id=$5 and user_id=$6 returning *\<close>. The statement has run when the row count
  is tested, so the table that comes back is the updated one also when the function
  throws.
\<close>

definition updateTheme ::
  "string \<Rightarrow> string \<Rightarrow> string \<Rightarrow> themeColors option \<Rightarrow> string option \<Rightarrow> string option
     \<Rightarrow> themes \<Rightarrow> (exn + theme) \<times> themes" where
  "updateTheme themeId userId label colors customCss customHtml tbl =
     (let hit = (\<lambda>r. db_id r = themeId \<and> db_user_id r = Some userId);
          set_cols = (\<lambda>r. r\<lparr> db_label := label, db_colors := colors,
                               db_custom_css := customCss, db_custom_html := customHtml \<rparr>);
          rows = map set_cols (filter hit tbl);
          tbl' = map (\<lambda>r. if hit r then set_cols r else r) tbl in
      if length rows \<le> 0
      then (Inl (HttpError NOT_FOUND
              ''Failed to update the theme because the id couldn't be found.''), tbl')
      else (Inr (toTheme (rows ! 0)), tbl'))"

text \<open>\<^verbatim>\<open>delete from app.themes where id=$1 and user_id=$2 returning *\<close>\<close>

definition deleteTheme :: "string \<Rightarrow> string \<Rightarrow> themes \<Rightarrow> (exn + theme) \<times> themes" where
  "deleteTheme themeId userId tbl =
     (let hit = (\<lambda>r. db_id r = themeId \<and> db_user_id r = Some userId);
          rows = filter hit tbl;
          tbl' = filter (\<lambda>r. \<not> hit r) tbl in
      if length rows \<le> 0
      then (Inl (HttpError NOT_FOUND
              ''Failed to delete the theme because the id couldn't be found.''), tbl')
      else (Inr (toTheme (rows ! 0)), tbl'))"

text \<open>The two situations of a caller who is refused.\<close>

definition owned_by_another :: "themes \<Rightarrow> string \<Rightarrow> string \<Rightarrow> bool" where
  "owned_by_another tbl themeId userId \<longleftrightarrow>
     list_ex (\<lambda>r. db_id r = themeId) tbl \<and>
     list_all (\<lambda>r. db_id r = themeId \<longrightarrow> db_user_id r \<noteq> Some userId) tbl"

definition absent :: "themes \<Rightarrow> string \<Rightarrow> bool" where
  "absent tbl themeId \<longleftrightarrow> list_all (\<lambda>r. db_id r \<noteq> themeId) tbl"

text \<open>The visibility rule of the data model: a theme may be seen by its owner, and by
  everybody when it is global.\<close>

definition visible_to :: "string \<Rightarrow> theme \<Rightarrow> bool" where
  "visible_to userId t \<longleftrightarrow> th_userId t = Some userId \<or> th_global t"

section \<open>The user controller (controllers/user-controller.ts)\<close>

subsection \<open>Data\<close>

text \<open>The fields of a user and of a profile that the controller reads.\<close>

record user =
  user_id :: string
  user_email :: string
  user_createdOn :: string

record profile =
  profile_id :: string
  profile_userId :: string
  profile_handle :: string

text \<open>
  Modelled from the spec: the token-signing utility (\<^verbatim>\<open>jwt.sign\<close> of the package
  jsonwebtoken, outside the repository) "produces a bearer credential from a secret
  and payload". A token is kept as what it was made from: the payload, the signing
  secret, the time of issue in seconds, and the time it expires. The option
  \<^verbatim>\<open>expiresIn\<close> is a time span written as a decimal number and a unit; \<open>timespan\<close>
  reads the spans in hours, in seconds, and signing throws on any other text.
\<close>

record token =
  tok_payload :: "(string \<times> string) list"
  tok_secret :: string
  tok_issuedAt :: nat
  tok_expiresAt :: nat

definition digit_of :: "char \<Rightarrow> nat option" where
  "digit_of c =
     (let n = (of_char c :: nat) in if 48 \<le> n \<and> n \<le> 57 then Some (n - 48) else None)"

fun decimal :: "string \<Rightarrow> nat \<Rightarrow> nat option" where
  "decimal [] acc = Some acc"
| "decimal (c # cs) acc =
     (case digit_of c of None \<Rightarrow> None | Some d \<Rightarrow> decimal cs (10 * acc + d))"

definition timespan :: "string \<Rightarrow> nat option" where
  "timespan s =
     (case rev s of
        [] \<Rightarrow> None
      | u # ds \<Rightarrow>
          if u = CHR ''h'' \<and> ds \<noteq> []
          then map_option (\<lambda>n. n * 3600) (decimal (rev ds) 0)
          else None)"

definition jwt_sign ::
  "(string \<times> string) list \<Rightarrow> string \<Rightarrow> string \<Rightarrow> nat \<Rightarrow> exn + token" where
  "jwt_sign payload secret expiresIn now =
     (case timespan expiresIn of
        None \<Rightarrow> Inl (OtherError ''expiresIn should be a string representing a timespan'')
      | Some d \<Rightarrow>
          Inr \<lparr> tok_payload = payload, tok_secret = secret,
                tok_issuedAt = now, tok_expiresAt = now + d \<rparr>)"

text \<open>What \<^verbatim>\<open>userService.loginUser\<close> resolves to: the controller reads \<^verbatim>\<open>user.id\<close> and
  \<^verbatim>\<open>activeProfile?.id\<close> of it and returns it whole.\<close>

record loginResultData =
  lr_user :: user
  lr_activeProfile :: "profile option"
  lr_token :: token

text \<open>
  Modelled from the spec: \<^verbatim>\<open>ReplyUtils.error(message, e?)\<close> and
  \<^verbatim>\<open>ReplyUtils.success(message)\<close> (utils/reply-utils, not among the source files) build
  the "error-shaped body" and the "generic success acknowledgment"; they are kept as
  the arguments they were called with. The other payloads are the values the handlers
  return. \<open>'a\<close> is what \<^verbatim>\<open>userService.setActiveProfile\<close> resolves to.
\<close>

datatype 'a payload =
    ReplyError string "exn option"
  | ReplySuccess string
  | LoginData loginResultData
  | CreatedData user profile token
  | UserData user
  | ActiveProfileData 'a

text \<open>
  What the client gets: \<^verbatim>\<open>reply.status(c).send(b); return;\<close> and
  \<^verbatim>\<open>reply.code(c); return b;\<close> both answer with status \<open>c\<close> and body \<open>b\<close>; a handler
  that returns a value and sets no code answers with \<open>OK\<close>.
\<close>

datatype 'a response = Response (resp_status: nat) (resp_body: "'a payload")

text \<open>Request bodies, one per request interface; \<^verbatim>\<open>field?: string\<close> is an option.\<close>

record 'b request =
  req_ip :: string
  req_body :: 'b

record loginBody =
  lb_email :: "string option"
  lb_password :: "string option"

record createBody =
  cb_email :: "string option"
  cb_password :: "string option"
  cb_name :: string
  cb_handle :: string

record requestResetBody =
  rq_email :: "string option"

record resetBody =
  rs_token :: "string option"
  rs_password :: "string option"

record authBody =
  ab_authUser :: user

record setActiveBody =
  sa_authUser :: user
  sa_newProfileId :: "string option"

text \<open>\<^verbatim>\<open>!x\<close> for an optional string: true when it is undefined or empty.\<close>

definition falsy :: "string option \<Rightarrow> bool" where
  "falsy x = (case x of None \<Rightarrow> True | Some s \<Rightarrow> s = [])"

text \<open>The two settings of \<^verbatim>\<open>config\<close> the controller reads; the analytics client
  \<^verbatim>\<open>this.mixpanel\<close> exists when the token is set.\<close>

record config =
  cfg_secret :: string
  cfg_mixpanelToken :: "string option"

definition mixpanel :: "config \<Rightarrow> bool" where
  "mixpanel cfg = (\<not> falsy (cfg_mixpanelToken cfg))"

text \<open>The calls made to the analytics client, in order: \<^verbatim>\<open>track(event, properties)\<close>
  and \<^verbatim>\<open>people.set(id, properties)\<close>.\<close>

datatype event =
    Track string "(string \<times> string option) list"
  | PeopleSet string "(string \<times> string option) list"

text \<open>
  \<^verbatim>\<open>UserService\<close> and \<^verbatim>\<open>ProfileService\<close> are not among the source files: the
  controller is modelled over any implementation of the methods it calls. A method
  takes the database and gives back what its promise settles to (\<open>Inl\<close> the error it
  rejects with) and the database it leaves. The two lookups of the profile service
  are queries: they read the database and leave it as it is. A lookup may resolve to
  no profile (\<open>None\<close>), which the controller tests for.
\<close>

record ('db, 'a) services =
  loginUser :: "string \<Rightarrow> string \<Rightarrow> 'db \<Rightarrow> (exn + loginResultData) \<times> 'db"
  createUser :: "string \<Rightarrow> string \<Rightarrow> string \<Rightarrow> 'db \<Rightarrow> (exn + user) \<times> 'db"
  setActiveProfile :: "string \<Rightarrow> string \<Rightarrow> 'db \<Rightarrow> (exn + 'a) \<times> 'db"
  sendPasswordResetEmail :: "string \<Rightarrow> 'db \<Rightarrow> (exn + user) \<times> 'db"
  setPasswordWithToken :: "string \<Rightarrow> string \<Rightarrow> 'db \<Rightarrow> (exn + unit) \<times> 'db"
  getProfileByHandle :: "string \<Rightarrow> bool \<Rightarrow> 'db \<Rightarrow> exn + profile option"
  getProfile :: "string \<Rightarrow> 'db \<Rightarrow> exn + profile option"
  createProfile :: "string \<Rightarrow> string \<Rightarrow> 'db \<Rightarrow> (exn + profile) \<times> 'db"

subsection \<open>The handlers\<close>

text \<open>
  The state a handler works on is the database and the calls made so far to the
  analytics client. A handler gives back the response, or \<open>Inl\<close> the error that
  leaves it uncaught, and the state.

  Every handler ends with the same catch block: an \<^verbatim>\<open>HttpError\<close> becomes a response
  with its status code and \<^verbatim>\<open>ReplyUtils.error(e.message, e)\<close>, anything else is
  thrown again.
\<close>

definition catch_http :: "exn \<Rightarrow> exn + 'a response" where
  "catch_http e =
     (case e of
        HttpError statusCode message \<Rightarrow>
          Inr (Response statusCode (ReplyError message (Some e)))
      | OtherError _ \<Rightarrow> Inl e)"

text \<open>Route \<^verbatim>\<open>/user/login\<close>\<close>

fun LoginUser ::
  "('db, 'a) services \<Rightarrow> config \<Rightarrow> loginBody request \<Rightarrow> 'db \<times> event list
     \<Rightarrow> (exn + 'a response) \<times> ('db \<times> event list)" where
  "LoginUser svc cfg request (db, log) =
     (let body = req_body request in
      if falsy (lb_email body)
      then (Inr (Response BAD_REQUEST (ReplyError ''No email was provided.'' None)), (db, log))
      else if falsy (lb_password body)
      then (Inr (Response BAD_REQUEST (ReplyError ''No password was provided.'' None)), (db, log))
      else
        (case loginUser svc (the (lb_email body)) (the (lb_password body)) db of
           (Inl e, db') \<Rightarrow> (catch_http e, (db', log))
         | (Inr loginResultData, db') \<Rightarrow>
             (Inr (Response OK (LoginData loginResultData)),
              (db',
               if mixpanel cfg
               then log @ [Track ''user logged in''
                      [(''distinct_id'', Some (user_id (lr_user loginResultData))),
                       (''$ip'', Some (req_ip request)),
                       (''profile'', map_option profile_id (lr_activeProfile loginResultData))]]
               else log))))"

text \<open>
  Route \<^verbatim>\<open>/user/create\<close>, from \<^verbatim>\<open>userService.createUser\<close> on (lines 183 to 206, under
  the outer catch).
\<close>

definition CreateUser_create ::
  "('db, 'a) services \<Rightarrow> config \<Rightarrow> nat \<Rightarrow> createBody request \<Rightarrow> 'db \<times> event list
     \<Rightarrow> (exn + 'a response) \<times> ('db \<times> event list)" where
  "CreateUser_create svc cfg now request s =
     (let body = req_body request; db = fst s; log = snd s in
      case createUser svc (the (cb_email body)) (the (cb_password body)) (cb_name body) db of
        (Inl e, db1) \<Rightarrow> (catch_http e, (db1, log))
      | (Inr user, db1) \<Rightarrow>
          (case createProfile svc (user_id user) (cb_handle body) db1 of
             (Inl e, db2) \<Rightarrow> (catch_http e, (db2, log))
           | (Inr profile, db2) \<Rightarrow>
               (case setActiveProfile svc (user_id user) (profile_id profile) db2 of
                  (Inl e, db3) \<Rightarrow> (catch_http e, (db3, log))
                | (Inr _, db3) \<Rightarrow>
                    (case jwt_sign [(''email'', user_email user)] (cfg_secret cfg) ''168h'' now of
                       Inl e \<Rightarrow> (catch_http e, (db3, log))
                     | Inr token \<Rightarrow>
                         (let log1 =
                            (if mixpanel cfg
                             then log @ [Track ''user created''
                                    [(''distinct_id'', Some (user_id user)),
                                     (''$ip'', Some (req_ip request)),
                                     (''profile'', Some (profile_id profile))]]
                             else log);
                              log2 =
                            (if mixpanel cfg
                             then log1 @ [PeopleSet (user_id user)
                                    [(''$email'', Some (user_email user)),
                                     (''$created'', Some (user_createdOn user))]]
                             else log1) in
                          (Inr (Response OK (CreatedData user profile token)), (db3, log2)))))))"

text \<open>
  Route \<^verbatim>\<open>/user/create\<close>. \<open>now\<close> is the clock, in seconds, when the token is signed.
  The inner try block (lines 167 to 181) looks the handle up. Its catch block returns
  a response for an \<^verbatim>\<open>HttpError\<close> whose status is not \<open>NOT_FOUND\<close> and does nothing
  else: after any other error, and after a lookup that resolves to no profile, the
  handler goes on to create the user.
\<close>

fun CreateUser ::
  "('db, 'a) services \<Rightarrow> config \<Rightarrow> nat \<Rightarrow> createBody request \<Rightarrow> 'db \<times> event list
     \<Rightarrow> (exn + 'a response) \<times> ('db \<times> event list)" where
  "CreateUser svc cfg now request (db, log) =
     (let body = req_body request in
      if falsy (cb_email body)
      then (Inr (Response BAD_REQUEST (ReplyError ''No email was provided.'' None)), (db, log))
      else if falsy (cb_password body)
      then (Inr (Response BAD_REQUEST (ReplyError ''No password was provided.'' None)), (db, log))
      else
        (case getProfileByHandle svc (cb_handle body) False db of
           Inr checkProfile \<Rightarrow>
             (case checkProfile of
                Some _ \<Rightarrow>
                  (Inr (Response CONFLICT (ReplyError
                     ''The profile couldn't be added because it is already being used.'' None)),
                   (db, log))
              | None \<Rightarrow> CreateUser_create svc cfg now request (db, log))
         | Inl e \<Rightarrow>
             (case e of
                HttpError statusCode message \<Rightarrow>
                  if statusCode \<noteq> NOT_FOUND
                  then (Inr (Response statusCode (ReplyError message (Some e))), (db, log))
                  else CreateUser_create svc cfg now request (db, log)
              | OtherError _ \<Rightarrow> CreateUser_create svc cfg now request (db, log))))"

text \<open>
  The condition under which \<open>CreateUser\<close> gets past the two tests and the inner try
  block to \<^verbatim>\<open>userService.createUser\<close> (line 183), read off the code: the lookup did
  not give a profile and did not throw an \<^verbatim>\<open>HttpError\<close> with another status than
  \<open>NOT_FOUND\<close>.
\<close>

definition reaches_creation :: "('db, 'a) services \<Rightarrow> createBody request \<Rightarrow> 'db \<Rightarrow> bool" where
  "reaches_creation svc request db =
     (let body = req_body request in
      if falsy (cb_email body) then False
      else if falsy (cb_password body) then False
      else
        (case getProfileByHandle svc (cb_handle body) False db of
           Inr checkProfile \<Rightarrow> (case checkProfile of Some _ \<Rightarrow> False | None \<Rightarrow> True)
         | Inl e \<Rightarrow>
             (case e of
                HttpError statusCode message \<Rightarrow> if statusCode \<noteq> NOT_FOUND then False else True
              | OtherError _ \<Rightarrow> True)))"

text \<open>Route \<^verbatim>\<open>/user/request-reset-password\<close>\<close>

fun UserRequestResetPassword ::
  "('db, 'a) services \<Rightarrow> config \<Rightarrow> requestResetBody request \<Rightarrow> 'db \<times> event list
     \<Rightarrow> (exn + 'a response) \<times> ('db \<times> event list)" where
  "UserRequestResetPassword svc cfg request (db, log) =
     (let body = req_body request in
      if falsy (rq_email body)
      then (Inr (Response NOT_FOUND (ReplyError ''No email was provided.'' None)), (db, log))
      else
        (case sendPasswordResetEmail svc (the (rq_email body)) db of
           (Inl e, db') \<Rightarrow> (catch_http e, (db', log))
         | (Inr user, db') \<Rightarrow>
             (Inr (Response OK (ReplySuccess ''Successfully sent password reset email.'')),
              (db',
               if mixpanel cfg
               then log @ [Track ''user requested password reset''
                      [(''distinct_id'', Some (user_id user)),
                       (''$ip'', Some (req_ip request))]]
               else log))))"

text \<open>Route \<^verbatim>\<open>/user/reset-password\<close>\<close>

fun ResetUserPassword ::
  "('db, 'a) services \<Rightarrow> resetBody request \<Rightarrow> 'db \<times> event list
     \<Rightarrow> (exn + 'a response) \<times> ('db \<times> event list)" where
  "ResetUserPassword svc request (db, log) =
     (let body = req_body request in
      if falsy (rs_token body)
      then (Inr (Response BAD_REQUEST (ReplyError ''No email was provided.'' None)), (db, log))
      else if falsy (rs_password body)
      then (Inr (Response BAD_REQUEST (ReplyError ''No email was provided.'' None)), (db, log))
      else
        (case setPasswordWithToken svc (the (rs_token body)) (the (rs_password body)) db of
           (Inl e, db') \<Rightarrow> (catch_http e, (db', log))
         | (Inr _, db') \<Rightarrow>
             (Inr (Response OK (ReplySuccess ''Successfully changed password.'')), (db', log))))"

text \<open>Route \<^verbatim>\<open>/user\<close>\<close>

definition GetUser ::
  "authBody request \<Rightarrow> 'db \<times> event list \<Rightarrow> (exn + 'a response) \<times> ('db \<times> event list)" where
  "GetUser request s = (Inr (Response OK (UserData (ab_authUser (req_body request)))), s)"

text \<open>
  Routes \<^verbatim>\<open>/user/update\<close>, \<^verbatim>\<open>/user/delete\<close> and \<^verbatim>\<open>/user/data-package\<close>. The three
  handlers never read the request, so it may be of any type; nothing in their try
  block throws.
\<close>

definition UpdateUser ::
  "'r \<Rightarrow> 'db \<times> event list \<Rightarrow> (exn + 'a response) \<times> ('db \<times> event list)" where
  "UpdateUser request s =
     (Inr (Response NOT_IMPLEMENTED (ReplyError ''Sorry, this is not implemented yet.'' None)), s)"

definition DeleteUser ::
  "'r \<Rightarrow> 'db \<times> event list \<Rightarrow> (exn + 'a response) \<times> ('db \<times> event list)" where
  "DeleteUser request s =
     (Inr (Response NOT_IMPLEMENTED (ReplyError ''Sorry, this is not implemented yet.'' None)), s)"

definition GetUserDataPackage ::
  "'r \<Rightarrow> 'db \<times> event list \<Rightarrow> (exn + 'a response) \<times> ('db \<times> event list)" where
  "GetUserDataPackage request s =
     (Inr (Response NOT_IMPLEMENTED (ReplyError ''Sorry, this is not implemented yet.'' None)), s)"

text \<open>
  Route \<^verbatim>\<open>/user/set-active-profile\<close>. Reading \<^verbatim>\<open>newProfile.userId\<close> of a lookup that
  resolved to no profile throws a \<^verbatim>\<open>TypeError\<close>. The last statement is
  \<^verbatim>\<open>return this.userService.setActiveProfile(...)\<close> with no \<^verbatim>\<open>await\<close>: the handler
  hands the promise on, so when it is rejected the handler's catch block is not
  run and the error leaves the handler as it is.
\<close>

fun SetActiveProfile ::
  "('db, 'a) services \<Rightarrow> config \<Rightarrow> setActiveBody request \<Rightarrow> 'db \<times> event list
     \<Rightarrow> (exn + 'a response) \<times> ('db \<times> event list)" where
  "SetActiveProfile svc cfg request (db, log) =
     (let body = req_body request;
          user = sa_authUser body;
          newProfileId = sa_newProfileId body in
      if falsy newProfileId
      then (Inr (Response BAD_REQUEST (ReplyError ''No email was provided.'' None)), (db, log))
      else
        (case getProfile svc (the newProfileId) db of
           Inl e \<Rightarrow> (catch_http e, (db, log))
         | Inr None \<Rightarrow>
             (catch_http (OtherError ''TypeError: Cannot read properties of undefined''),
              (db, log))
         | Inr (Some newProfile) \<Rightarrow>
             if user_id user \<noteq> profile_userId newProfile
             then (Inr (Response UNAUTHORIZED
                          (ReplyError ''The user doesn't own the profile.'' None)), (db, log))
             else
               (let log' =
                  (if mixpanel cfg
                   then log @ [Track ''user set active profile''
                          [(''distinct_id'', Some (user_id user)),
                           (''$ip'', Some (req_ip request)),
                           (''profile'', newProfileId)]]
                   else log) in
                case setActiveProfile svc (user_id user) (the newProfileId) db of
                  (Inl e, db') \<Rightarrow> (Inl e, (db', log'))
                | (Inr r, db') \<Rightarrow> (Inr (Response OK (ActiveProfileData r)), (db', log')))))"

section \<open>An implementation of the services\<close>

text \<open>
  Modelled from the spec: the database behind \<^verbatim>\<open>UserService\<close> and \<^verbatim>\<open>ProfileService\<close>
  (services/user-service and services/profile-service, not among the source files),
  with what the spec's data model names: users (with the password, kept apart), profiles,
  the active profile of each user and the reset tokens. \<open>st_clock\<close> is the date the
  database stamps on a new row, \<open>st_serial\<close> the number it gives the next one.
\<close>

record store =
  st_users :: "user list"
  st_passwords :: "(string \<times> string) list"
  st_profiles :: "profile list"
  st_active :: "(string \<times> string) list"
  st_resets :: "(string \<times> string) list"
  st_clock :: string
  st_serial :: nat

text \<open>Modelled from the spec: the identifier of a new row, a letter and the serial number
  written in unary.\<close>

definition fresh_id :: "char \<Rightarrow> store \<Rightarrow> string" where
  "fresh_id c st = c # replicate (st_serial st) CHR ''i''"

text \<open>Modelled from the spec: \<^verbatim>\<open>ProfileService.getProfile\<close>, a lookup by identifier; as in
  the theme service, and by the error taxonomy ("not-found errors (missing/unauthorized
  resource \<rightarrow> 404)"), a missing row is a \<open>NOT_FOUND\<close> error.\<close>

definition ref_getProfile :: "string \<Rightarrow> store \<Rightarrow> exn + profile option" where
  "ref_getProfile profileId st =
     (case find (\<lambda>p. profile_id p = profileId) (st_profiles st) of
        None \<Rightarrow> Inl (HttpError NOT_FOUND ''The profile couldn't be found.'')
      | Some p \<Rightarrow> Inr (Some p))"

text \<open>Modelled from the spec: \<^verbatim>\<open>ProfileService.getProfileByHandle\<close>, the lookup of "an
  existing profile with the requested handle", "not found" when there is none. The
  visibility flag is not described and plays no part.\<close>

definition ref_getProfileByHandle :: "string \<Rightarrow> bool \<Rightarrow> store \<Rightarrow> exn + profile option" where
  "ref_getProfileByHandle handle checkVisibility st =
     (case find (\<lambda>p. profile_handle p = handle) (st_profiles st) of
        None \<Rightarrow> Inl (HttpError NOT_FOUND ''The profile couldn't be found.'')
      | Some p \<Rightarrow> Inr (Some p))"

text \<open>Modelled from the spec: \<^verbatim>\<open>UserService.createUser\<close>, "creates user": a new row
  with a fresh identifier, the email and the creation timestamp.\<close>

definition ref_createUser ::
  "string \<Rightarrow> string \<Rightarrow> string \<Rightarrow> store \<Rightarrow> (exn + user) \<times> store" where
  "ref_createUser email password name st =
     (let u = \<lparr> user_id = fresh_id CHR ''u'' st, user_email = email,
                 user_createdOn = st_clock st \<rparr> in
      (Inr u, st\<lparr> st_users := st_users st @ [u],
                  st_passwords := st_passwords st @ [(user_id u, password)],
                  st_serial := Suc (st_serial st) \<rparr>))"

text \<open>Modelled from the spec: \<^verbatim>\<open>ProfileService.createProfile\<close>, "creates profile": a
  new row owned by the user, with the handle.\<close>

definition ref_createProfile :: "string \<Rightarrow> string \<Rightarrow> store \<Rightarrow> (exn + profile) \<times> store" where
  "ref_createProfile userId handle st =
     (let p = \<lparr> profile_id = fresh_id CHR ''p'' st, profile_userId = userId,
                 profile_handle = handle \<rparr> in
      (Inr p, st\<lparr> st_profiles := st_profiles st @ [p],
                  st_serial := Suc (st_serial st) \<rparr>))"

text \<open>Modelled from the spec: \<^verbatim>\<open>UserService.setActiveProfile\<close>, "marks it active" and
  "returns the updated active-profile association", here the profile now active.\<close>

definition ref_setActiveProfile :: "string \<Rightarrow> string \<Rightarrow> store \<Rightarrow> (exn + profile) \<times> store" where
  "ref_setActiveProfile userId profileId st =
     (case find (\<lambda>p. profile_id p = profileId) (st_profiles st) of
        None \<Rightarrow> (Inl (HttpError NOT_FOUND ''The profile couldn't be found.''), st)
      | Some p \<Rightarrow>
          (Inr p, st\<lparr> st_active :=
                        (userId, profileId) # filter (\<lambda>a. fst a \<noteq> userId) (st_active st) \<rparr>))"

text \<open>Modelled from the spec: \<^verbatim>\<open>UserService.loginUser\<close>, "authenticated by
  email/password login"; the result is "\<open>{user, activeProfile, token}\<close>-shaped", the
  token one "that encodes the submitted email and expires in exactly 168 hours from
  issuance".\<close>

definition ref_loginUser ::
  "string \<Rightarrow> nat \<Rightarrow> string \<Rightarrow> string \<Rightarrow> store \<Rightarrow> (exn + loginResultData) \<times> store" where
  "ref_loginUser secret now email password st =
     (case find (\<lambda>u. user_email u = email) (st_users st) of
        None \<Rightarrow> (Inl (HttpError NOT_FOUND ''The user couldn't be found.''), st)
      | Some u \<Rightarrow>
          if map_of (st_passwords st) (user_id u) \<noteq> Some password
          then (Inl (HttpError UNAUTHORIZED ''The password is incorrect.''), st)
          else
            (case jwt_sign [(''email'', email)] secret ''168h'' now of
               Inl e \<Rightarrow> (Inl e, st)
             | Inr t \<Rightarrow>
                 (Inr \<lparr> lr_user = u,
                        lr_activeProfile =
                          (case map_of (st_active st) (user_id u) of
                             None \<Rightarrow> None
                           | Some pid \<Rightarrow> find (\<lambda>p. profile_id p = pid) (st_profiles st)),
                        lr_token = t \<rparr>, st)))"

text \<open>Modelled from the spec: \<^verbatim>\<open>UserService.sendPasswordResetEmail\<close>, "password reset
  token issuance": a token for the user with that email is recorded.\<close>

definition ref_sendPasswordResetEmail :: "string \<Rightarrow> store \<Rightarrow> (exn + user) \<times> store" where
  "ref_sendPasswordResetEmail email st =
     (case find (\<lambda>u. user_email u = email) (st_users st) of
        None \<Rightarrow> (Inl (HttpError NOT_FOUND ''The user couldn't be found.''), st)
      | Some u \<Rightarrow>
          (Inr u, st\<lparr> st_resets := st_resets st @ [(fresh_id CHR ''r'' st, user_id u)],
                      st_serial := Suc (st_serial st) \<rparr>))"

text \<open>Modelled from the spec: \<^verbatim>\<open>UserService.setPasswordWithToken\<close>, the
  "token-validated password change"; the token is "single-use".\<close>

definition ref_setPasswordWithToken ::
  "string \<Rightarrow> string \<Rightarrow> store \<Rightarrow> (exn + unit) \<times> store" where
  "ref_setPasswordWithToken tok password st =
     (case map_of (st_resets st) tok of
        None \<Rightarrow> (Inl (HttpError UNAUTHORIZED ''The reset token is not valid.''), st)
      | Some userId \<Rightarrow>
          (Inr (), st\<lparr> st_passwords :=
                         (userId, password) # filter (\<lambda>a. fst a \<noteq> userId) (st_passwords st),
                       st_resets := filter (\<lambda>a. fst a \<noteq> tok) (st_resets st) \<rparr>))"

text \<open>Modelled from the spec: the two services over this database, for a signing
  secret and a clock.\<close>

definition ref_services :: "string \<Rightarrow> nat \<Rightarrow> (store, profile) services" where
  "ref_services secret now =
     \<lparr> loginUser = ref_loginUser secret now,
       createUser = ref_createUser,
       setActiveProfile = ref_setActiveProfile,
       sendPasswordResetEmail = ref_sendPasswordResetEmail,
       setPasswordWithToken = ref_setPasswordWithToken,
       getProfileByHandle = ref_getProfileByHandle,
       getProfile = ref_getProfile,
       createProfile = ref_createProfile \<rparr>"

subsection \<open>Sample data\<close>

definition alice :: user where
  "alice = \<lparr> user_id = ''u'', user_email = ''alice@example.org'', user_createdOn = ''2021-03-01'' \<rparr>"

definition bob :: user where
  "bob = \<lparr> user_id = ''ui'', user_email = ''bob@example.org'', user_createdOn = ''2021-03-02'' \<rparr>"

definition abee :: profile where
  "abee = \<lparr> profile_id = ''pii'', profile_userId = ''u'', profile_handle = ''abee'' \<rparr>"

definition store0 :: store where
  "store0 =
     \<lparr> st_users = [alice, bob],
       st_passwords = [(''u'', ''secret-a''), (''ui'', ''secret-b'')],
       st_profiles = [abee],
       st_active = [(''u'', ''pii'')],
       st_resets = [],
       st_clock = ''2021-03-03'',
       st_serial = 3 \<rparr>"

definition config0 :: config where
  "config0 = \<lparr> cfg_secret = ''s3cr3t'', cfg_mixpanelToken = Some ''mp-token'' \<rparr>"

definition row :: "string \<Rightarrow> string option \<Rightarrow> string \<Rightarrow> bool \<Rightarrow> dbTheme" where
  "row i u l g =
     \<lparr> db_id = i, db_user_id = u, db_label = l, db_colors = None,
       db_custom_css = None, db_custom_html = None, db_global = g \<rparr>"

definition themes0 :: themes where
  "themes0 =
     [row ''t1'' (Some ''u'') ''Dusk'' False,
      row ''t2'' (Some ''ui'') ''Dawn'' False,
      row ''t3'' None ''Plain'' True]"

text \<open>Requests from the address \<open>10.0.0.7\<close>, and the rows the database makes for a
  new user "carol" when it is in the state \<open>store0\<close>.\<close>

definition create_req :: "string option \<Rightarrow> string \<Rightarrow> createBody request" where
  "create_req email handle =
     \<lparr> req_ip = ''10.0.0.7'',
       req_body = \<lparr> cb_email = email, cb_password = Some ''pw'', cb_name = ''Carol'',
                    cb_handle = handle \<rparr> \<rparr>"

definition set_active_req :: "user \<Rightarrow> string option \<Rightarrow> setActiveBody request" where
  "set_active_req u pid =
     \<lparr> req_ip = ''10.0.0.7'', req_body = \<lparr> sa_authUser = u, sa_newProfileId = pid \<rparr> \<rparr>"

definition login_req :: "string \<Rightarrow> string \<Rightarrow> loginBody request" where
  "login_req email password =
     \<lparr> req_ip = ''10.0.0.7'',
       req_body = \<lparr> lb_email = Some email, lb_password = Some password \<rparr> \<rparr>"

definition reset_req :: "string option \<Rightarrow> string option \<Rightarrow> resetBody request" where
  "reset_req tok password =
     \<lparr> req_ip = ''10.0.0.7'', req_body = \<lparr> rs_token = tok, rs_password = password \<rparr> \<rparr>"

definition carol :: user where
  "carol = \<lparr> user_id = ''uiii'', user_email = ''carol@example.org'',
             user_createdOn = ''2021-03-03'' \<rparr>"

definition carol_profile :: "string \<Rightarrow> profile" where
  "carol_profile handle =
     \<lparr> profile_id = ''piiii'', profile_userId = ''uiii'', profile_handle = handle \<rparr>"

definition carol_token :: token where
  "carol_token =
     \<lparr> tok_payload = [(''email'', ''carol@example.org'')], tok_secret = ''s3cr3t'',
       tok_issuedAt = 1000, tok_expiresAt = 605800 \<rparr>"

text \<open>The services when the connection to the database fails, in the handle lookup
  only and in the login only: the driver's error is not an \<^verbatim>\<open>HttpError\<close>.\<close>

definition lookup_down :: "(store, profile) services" where
  "lookup_down =
     (ref_services ''s3cr3t'' 1000)
       \<lparr> getProfileByHandle :=
           (\<lambda>handle checkVisibility st. Inl (OtherError ''Connection terminated unexpectedly'')) \<rparr>"

definition login_down :: "(store, profile) services" where
  "login_down =
     (ref_services ''s3cr3t'' 1000)
       \<lparr> loginUser :=
           (\<lambda>email password st. (Inl (OtherError ''Connection terminated unexpectedly''), st)) \<rparr>"

text \<open>The services when the insertion of a user fails, with the error the theme
  service throws for an insertion that returns no row.\<close>

definition create_down :: "(store, profile) services" where
  "create_down =
     (ref_services ''s3cr3t'' 1000)
       \<lparr> createUser :=
           (\<lambda>email password name st.
              (Inl (HttpError INTERNAL_SERVER_ERROR
                 ''Failed to add a new user because of an internal server error.''), st)) \<rparr>"

section \<open>Theorems about the theme service\<close>

lemma no_hit_update:
  assumes "list_all (\<lambda>r. db_id r = themeId \<longrightarrow> db_user_id r \<noteq> Some userId) tbl"
  shows "updateTheme themeId userId label colors customCss customHtml tbl =
    (Inl (HttpError NOT_FOUND
       ''Failed to update the theme because the id couldn't be found.''), tbl)"
proof -
  let ?hit = "\<lambda>r. db_id r = themeId \<and> db_user_id r = Some userId"
  from assms have none: "\<forall>r \<in> set tbl. \<not> ?hit r"
    by (auto simp: list_all_iff)
  then have "filter ?hit tbl = []"
    by (simp add: filter_empty_conv)
  moreover from none have "map (\<lambda>r. if ?hit r then f r else r) tbl = tbl" for f
    by (intro map_idI) auto
  ultimately show ?thesis
    by (simp add: updateTheme_def Let_def)
qed

lemma no_hit_delete:
  assumes "list_all (\<lambda>r. db_id r = themeId \<longrightarrow> db_user_id r \<noteq> Some userId) tbl"
  shows "deleteTheme themeId userId tbl =
    (Inl (HttpError NOT_FOUND
       ''Failed to delete the theme because the id couldn't be found.''), tbl)"
proof -
  let ?hit = "\<lambda>r. db_id r = themeId \<and> db_user_id r = Some userId"
  from assms have none: "\<forall>r \<in> set tbl. \<not> ?hit r"
    by (auto simp: list_all_iff)
  then have "filter ?hit tbl = []" and "filter (\<lambda>r. \<not> ?hit r) tbl = tbl"
    by (simp_all add: filter_empty_conv filter_id_conv)
  then show ?thesis
    by (simp add: deleteTheme_def Let_def)
qed

lemma absent_no_hit:
  "absent tbl themeId \<Longrightarrow>
   list_all (\<lambda>r. db_id r = themeId \<longrightarrow> db_user_id r \<noteq> Some userId) tbl"
  by (auto simp: absent_def list_all_iff)

text \<open>
  C1. A caller who is not the owner of a theme gets from \<open>updateTheme\<close> and
  \<open>deleteTheme\<close> what a call on an identifier that is in no row gets: the same
  \<open>NOT_FOUND\<close> error, and the table as it was. The absent identifier may be asked for
  by any caller, on any table.
\<close>

theorem not_owner_indistinguishable_from_absent:
  assumes "owned_by_another tbl themeId userId" and "absent tbl' missingId"
  shows
    "fst (updateTheme themeId userId label colors customCss customHtml tbl) =
       fst (updateTheme missingId userId' label colors customCss customHtml tbl') \<and>
     fst (deleteTheme themeId userId tbl) = fst (deleteTheme missingId userId' tbl') \<and>
     updateTheme themeId userId label colors customCss customHtml tbl =
       (Inl (HttpError NOT_FOUND
          ''Failed to update the theme because the id couldn't be found.''), tbl) \<and>
     updateTheme missingId userId' label colors customCss customHtml tbl' =
       (Inl (HttpError NOT_FOUND
          ''Failed to update the theme because the id couldn't be found.''), tbl') \<and>
     deleteTheme themeId userId tbl =
       (Inl (HttpError NOT_FOUND
          ''Failed to delete the theme because the id couldn't be found.''), tbl) \<and>
     deleteTheme missingId userId' tbl' =
       (Inl (HttpError NOT_FOUND
          ''Failed to delete the theme because the id couldn't be found.''), tbl')"
proof -
  from assms(1)
  have a: "list_all (\<lambda>r. db_id r = themeId \<longrightarrow> db_user_id r \<noteq> Some userId) tbl"
    by (simp add: owned_by_another_def)
  from assms(2)
  have b: "list_all (\<lambda>r. db_id r = missingId \<longrightarrow> db_user_id r \<noteq> Some userId') tbl'"
    by (rule absent_no_hit)
  show ?thesis
    by (simp only: no_hit_update [OF a] no_hit_update [OF b]
        no_hit_delete [OF a] no_hit_delete [OF b] fst_conv simp_thms)
qed

text \<open>In the sample table the theme \<open>t1\<close> belongs to the user \<open>u\<close>; the user \<open>ui\<close> asks
  for it, and for \<open>t9\<close>, which is in no row.\<close>

theorem not_owner_indistinguishable_from_absent_witness:
  "owned_by_another themes0 ''t1'' ''ui'' \<and> absent themes0 ''t9'' \<and>
   fst (updateTheme ''t1'' ''ui'' ''Mine'' None None None themes0) =
     fst (updateTheme ''t9'' ''ui'' ''Mine'' None None None themes0) \<and>
   snd (updateTheme ''t1'' ''ui'' ''Mine'' None None None themes0) = themes0 \<and>
   fst (deleteTheme ''t1'' ''ui'' themes0) = fst (deleteTheme ''t9'' ''ui'' themes0) \<and>
   snd (deleteTheme ''t1'' ''ui'' themes0) = themes0"
proof -
  have h1: "owned_by_another themes0 ''t1'' ''ui''"
    by (simp add: owned_by_another_def themes0_def row_def)
  have h2: "absent themes0 ''t9''"
    by (simp add: absent_def themes0_def row_def)
  note t = not_owner_indistinguishable_from_absent
    [OF h1 h2, where userId' = "''ui''" and label = "''Mine''"
      and colors = None and customCss = None and customHtml = None]
  show ?thesis
    by (simp only: h1 h2 t fst_conv snd_conv simp_thms)
qed

lemma toTheme_fields [simp]:
  "th_id (toTheme r) = db_id r" "th_userId (toTheme r) = db_user_id r"
  "th_global (toTheme r) = db_global r"
  by (simp_all add: toTheme_def)

lemma find_filter:
  "find P xs = (case filter P xs of [] \<Rightarrow> None | x # _ \<Rightarrow> Some x)"
  by (induction xs) simp_all

lemma listThemes_eq:
  "listThemes userId includeGlobal tbl =
     (let rows = filter (\<lambda>r. db_user_id r = Some userId \<or> (includeGlobal \<and> db_global r)) tbl in
      if rows = [] then Inl (HttpError NOT_FOUND ''No themes were found.'')
      else Inr (map toTheme rows))"
  by (cases includeGlobal) (simp_all add: listThemes_def Let_def)

lemma getTheme_eq:
  "getTheme themeId tbl =
     (case find (\<lambda>r. db_id r = themeId) tbl of
        None \<Rightarrow> Inl (HttpError NOT_FOUND ''The theme couldn't be found.'')
      | Some r \<Rightarrow> Inr (toTheme r))"
  by (simp add: getTheme_def Let_def find_filter split: list.splits)

lemma listThemes_visible:
  "listThemes userId includeGlobal tbl = Inr ts \<Longrightarrow> list_all (visible_to userId) ts"
  by (auto simp: listThemes_eq Let_def list_all_iff visible_to_def split: if_splits)

lemma visible_listed:
  assumes "r \<in> set tbl" and "visible_to userId (toTheme r)"
  shows "\<exists>ts. listThemes userId True tbl = Inr ts \<and> toTheme r \<in> set ts"
proof -
  let ?rows = "filter (\<lambda>r. db_user_id r = Some userId \<or> (True \<and> db_global r)) tbl"
  from assms have "r \<in> set ?rows"
    by (simp add: visible_to_def)
  then have "?rows \<noteq> []" and "toTheme r \<in> set (map toTheme ?rows)"
    by (auto simp: filter_empty_conv)
  then show ?thesis
    by (simp add: listThemes_eq Let_def del: set_map)
qed

text \<open>
  C4, as the claim states it, fails for \<open>getTheme\<close>: the function takes the identifier
  only, so the user \<open>ui\<close> who asks for \<open>t1\<close> gets the theme, which belongs to \<open>u\<close> and is
  not global.
\<close>

theorem getTheme_ignores_owner_counterexample:
  "getTheme ''t1'' themes0 = Inr (toTheme (row ''t1'' (Some ''u'') ''Dusk'' False)) \<and>
   \<not> visible_to ''ui'' (toTheme (row ''t1'' (Some ''u'') ''Dusk'' False))"
  by (simp add: getTheme_def themes0_def row_def visible_to_def)

text \<open>
  C4, amended. \<open>listThemes\<close> keeps to the visibility rule: every theme it returns is
  owned by the user or global, and with \<open>includeGlobal\<close> every theme of the table that
  the user may see is returned. \<open>getTheme\<close> takes no user: it returns the first row
  with the identifier, whoever owns it and global or not.
\<close>

theorem reads_and_visibility:
  "(\<forall>ts. listThemes userId includeGlobal tbl = Inr ts \<longrightarrow> list_all (visible_to userId) ts) \<and>
   (\<forall>r \<in> set tbl. visible_to userId (toTheme r) \<longrightarrow>
      (\<exists>ts. listThemes userId True tbl = Inr ts \<and> toTheme r \<in> set ts)) \<and>
   getTheme themeId tbl =
     (case find (\<lambda>r. db_id r = themeId) tbl of
        None \<Rightarrow> Inl (HttpError NOT_FOUND ''The theme couldn't be found.'')
      | Some r \<Rightarrow> Inr (toTheme r))"
  using listThemes_visible visible_listed getTheme_eq by blast

text \<open>The user \<open>ui\<close> lists the sample table: the own theme \<open>t2\<close> and the global \<open>t3\<close>.\<close>

theorem reads_and_visibility_witness:
  "listThemes ''ui'' True themes0 =
     Inr [toTheme (row ''t2'' (Some ''ui'') ''Dawn'' False), toTheme (row ''t3'' None ''Plain'' True)] \<and>
   list_all (visible_to ''ui'')
     [toTheme (row ''t2'' (Some ''ui'') ''Dawn'' False), toTheme (row ''t3'' None ''Plain'' True)] \<and>
   (\<exists>ts. listThemes ''ui'' True themes0 = Inr ts \<and>
      toTheme (row ''t3'' None ''Plain'' True) \<in> set ts)"
proof -
  have l: "listThemes ''ui'' True themes0 =
     Inr [toTheme (row ''t2'' (Some ''ui'') ''Dawn'' False), toTheme (row ''t3'' None ''Plain'' True)]"
    by (simp add: listThemes_def themes0_def row_def)
  have m: "row ''t3'' None ''Plain'' True \<in> set themes0"
    by (simp add: themes0_def)
  have v: "visible_to ''ui'' (toTheme (row ''t3'' None ''Plain'' True))"
    by (simp add: visible_to_def row_def)
  note t = reads_and_visibility [of "''ui''" True themes0]
  from t l have "list_all (visible_to ''ui'')
     [toTheme (row ''t2'' (Some ''ui'') ''Dawn'' False), toTheme (row ''t3'' None ''Plain'' True)]"
    by blast
  moreover from t m v have "\<exists>ts. listThemes ''ui'' True themes0 = Inr ts \<and>
      toTheme (row ''t3'' None ''Plain'' True) \<in> set ts"
    by blast
  ultimately show ?thesis using l by (intro conjI)
qed

text \<open>
  C8. With \<open>includeGlobal\<close>, \<open>listThemes\<close> returns exactly the themes of the table
  that are owned by the user or global, in the order of the table; without it,
  exactly the themes owned by the user. When there is no such theme the result is the
  \<open>NOT_FOUND\<close> error (404), and in neither mode is it an empty list.
\<close>

theorem listThemes_exact:
  "listThemes userId True tbl =
     (if filter (visible_to userId) (map toTheme tbl) = []
      then Inl (HttpError NOT_FOUND ''No themes were found.'')
      else Inr (filter (visible_to userId) (map toTheme tbl))) \<and>
   listThemes userId False tbl =
     (if filter (\<lambda>t. th_userId t = Some userId) (map toTheme tbl) = []
      then Inl (HttpError NOT_FOUND ''No themes were found.'')
      else Inr (filter (\<lambda>t. th_userId t = Some userId) (map toTheme tbl))) \<and>
   (\<forall>includeGlobal. listThemes userId includeGlobal tbl \<noteq> Inr []) \<and>
   NOT_FOUND = 404"
proof -
  have all: "filter (visible_to userId) (map toTheme tbl) =
      map toTheme (filter (\<lambda>r. db_user_id r = Some userId \<or> (True \<and> db_global r)) tbl)"
    by (simp add: filter_map comp_def visible_to_def)
  have own: "filter (\<lambda>t. th_userId t = Some userId) (map toTheme tbl) =
      map toTheme (filter (\<lambda>r. db_user_id r = Some userId \<or> (False \<and> db_global r)) tbl)"
    by (simp add: filter_map comp_def)
  have "listThemes userId True tbl =
     (if filter (visible_to userId) (map toTheme tbl) = []
      then Inl (HttpError NOT_FOUND ''No themes were found.'')
      else Inr (filter (visible_to userId) (map toTheme tbl)))"
    unfolding all by (simp add: listThemes_eq Let_def)
  moreover have "listThemes userId False tbl =
     (if filter (\<lambda>t. th_userId t = Some userId) (map toTheme tbl) = []
      then Inl (HttpError NOT_FOUND ''No themes were found.'')
      else Inr (filter (\<lambda>t. th_userId t = Some userId) (map toTheme tbl)))"
    unfolding own by (simp add: listThemes_eq Let_def)
  moreover have "listThemes userId includeGlobal tbl \<noteq> Inr []" for includeGlobal
    by (simp add: listThemes_eq Let_def)
  ultimately show ?thesis
    by (simp add: NOT_FOUND_def)
qed

section \<open>Theorems about the user controller\<close>

lemma catch_http_simps [simp]:
  "catch_http (HttpError c m) = Inr (Response c (ReplyError m (Some (HttpError c m))))"
  "catch_http (OtherError x) = Inl (OtherError x)"
  by (simp_all add: catch_http_def)

lemma catch_http_not_created [simp]:
  "catch_http e \<noteq> Inr (Response c (CreatedData u p t))"
  by (cases e) simp_all

lemma timespan_168h: "timespan ''168h'' = Some (168 * 60 * 60)"
  by (simp add: timespan_def digit_of_def)

lemma jwt_sign_168h:
  "jwt_sign payload secret ''168h'' now =
     Inr \<lparr> tok_payload = payload, tok_secret = secret,
           tok_issuedAt = now, tok_expiresAt = now + 168 * 60 * 60 \<rparr>"
  by (simp only: jwt_sign_def timespan_168h option.case)

lemma replicate_numeral: "replicate (numeral k) x = x # replicate (pred_numeral k) x"
  by (simp add: numeral_eq_Suc)

lemmas sample_defs =
  ref_services_def ref_getProfile_def ref_getProfileByHandle_def ref_createUser_def
  ref_createProfile_def ref_setActiveProfile_def ref_loginUser_def
  ref_sendPasswordResetEmail_def ref_setPasswordWithToken_def fresh_id_def
  store0_def config0_def alice_def bob_def abee_def carol_def carol_profile_def
  carol_token_def create_req_def set_active_req_def login_req_def reset_req_def
  lookup_down_def login_down_def create_down_def falsy_def mixpanel_def replicate_numeral

subsection \<open>Creating a user\<close>

text \<open>
  C2, as the claim states it, fails: the email and the password are tested before the
  handle is looked up, so a request for the handle \<open>abee\<close>, which is in use, that brings
  no email is answered with \<open>BAD_REQUEST\<close>.
\<close>

theorem create_user_missing_email_counterexample:
  "getProfileByHandle (ref_services ''s3cr3t'' 1000)
      (cb_handle (req_body (create_req None ''abee''))) False store0 = Inr (Some abee) \<and>
   CreateUser (ref_services ''s3cr3t'' 1000) config0 1000 (create_req None ''abee'') (store0, []) =
     (Inr (Response BAD_REQUEST (ReplyError ''No email was provided.'' None)), (store0, [])) \<and>
   BAD_REQUEST \<noteq> CONFLICT"
  by (simp add: sample_defs StatusCodes)

text \<open>
  C2, amended. When the lookup finds a profile with the handle, a request that brings
  an email and a password is answered with \<open>CONFLICT\<close>, and one that lacks either with
  \<open>BAD_REQUEST\<close>; in both cases the database and the analytics calls are what they
  were: no user, no profile and no active-profile association is made.
\<close>

theorem create_user_handle_in_use:
  assumes "getProfileByHandle svc (cb_handle (req_body request)) False db = Inr (Some p)"
  shows "CreateUser svc cfg now request (db, log) =
     (Inr (Response
        (if falsy (cb_email (req_body request)) \<or> falsy (cb_password (req_body request))
         then BAD_REQUEST else CONFLICT)
        (ReplyError
           (if falsy (cb_email (req_body request)) then ''No email was provided.''
            else if falsy (cb_password (req_body request)) then ''No password was provided.''
            else ''The profile couldn't be added because it is already being used.'')
           None)),
      (db, log))"
  using assms by (simp add: Let_def)

theorem create_user_handle_in_use_witness:
  "CreateUser (ref_services ''s3cr3t'' 1000) config0 1000
      (create_req (Some ''carol@example.org'') ''abee'') (store0, []) =
     (Inr (Response CONFLICT (ReplyError
        ''The profile couldn't be added because it is already being used.'' None)),
      (store0, []))"
proof -
  have h: "getProfileByHandle (ref_services ''s3cr3t'' 1000)
      (cb_handle (req_body (create_req (Some ''carol@example.org'') ''abee''))) False store0 =
      Inr (Some abee)"
    by (simp add: sample_defs)
  have e: "\<not> falsy (cb_email (req_body (create_req (Some ''carol@example.org'') ''abee'')))"
    "\<not> falsy (cb_password (req_body (create_req (Some ''carol@example.org'') ''abee'')))"
    by (simp_all add: create_req_def falsy_def)
  show ?thesis
    using create_user_handle_in_use [OF h, of config0 1000 "[]"] e
    by (simp only: if_False simp_thms)
qed

text \<open>
  C5. The claim is that an error of the handle lookup other than "not found" is
  answered with an error and stops the creation. The inner catch block only returns
  for an \<^verbatim>\<open>HttpError\<close> and, unlike every other catch block of the file, does not throw
  the error again. Here the lookup fails with the driver's error while the handle \<open>abee\<close>
  is in use: the handler answers \<open>OK\<close> and a second profile with the handle is made.
\<close>

theorem lookup_error_swallowed:
  "getProfileByHandle lookup_down ''abee'' False store0 =
     Inl (OtherError ''Connection terminated unexpectedly'') \<and>
   fst (CreateUser lookup_down config0 1000
      (create_req (Some ''carol@example.org'') ''abee'') (store0, [])) =
     Inr (Response OK (CreatedData carol (carol_profile ''abee'') carol_token)) \<and>
   st_profiles (fst (snd (CreateUser lookup_down config0 1000
      (create_req (Some ''carol@example.org'') ''abee'') (store0, [])))) =
     [abee, carol_profile ''abee'']"
  by (simp add: sample_defs CreateUser_create_def jwt_sign_168h Let_def)

lemma create_created:
  assumes "CreateUser_create svc cfg now request (db, log) =
      (Inr (Response c (CreatedData u p t)), s')"
  shows "c = OK \<and>
     t = \<lparr> tok_payload = [(''email'', user_email u)], tok_secret = cfg_secret cfg,
           tok_issuedAt = now, tok_expiresAt = now + 168 * 60 * 60 \<rparr> \<and>
     (\<exists>db1. createUser svc (the (cb_email (req_body request)))
        (the (cb_password (req_body request))) (cb_name (req_body request)) db = (Inr u, db1))"
  using assms
  by (auto simp: CreateUser_create_def Let_def jwt_sign_168h
      split: prod.splits sum.splits)

lemma CreateUser_cases:
  "CreateUser svc cfg now request (db, log) = CreateUser_create svc cfg now request (db, log) \<or>
   (\<exists>c m e. CreateUser svc cfg now request (db, log) = (Inr (Response c (ReplyError m e)), (db, log)))"
  by (simp add: Let_def split: sum.splits option.splits exn.splits)

text \<open>
  C7. When \<^verbatim>\<open>/user/create\<close> succeeds, that is, answers with a user, a profile and a
  token, the user is the one \<open>createUser\<close> made, and the token is signed with the secret
  of the configuration, has the payload \<^verbatim>\<open>{email: user.email}\<close> and expires 168 hours
  (in seconds) after the time it was issued.
\<close>

theorem create_user_token:
  assumes "CreateUser svc cfg now request (db, log) =
      (Inr (Response c (CreatedData u p t)), s')"
  shows "c = OK \<and>
     t = \<lparr> tok_payload = [(''email'', user_email u)], tok_secret = cfg_secret cfg,
           tok_issuedAt = now, tok_expiresAt = now + 168 * 60 * 60 \<rparr> \<and>
     (\<exists>db1. createUser svc (the (cb_email (req_body request)))
        (the (cb_password (req_body request))) (cb_name (req_body request)) db = (Inr u, db1))"
proof -
  from CreateUser_cases [of svc cfg now request db log] assms
  have "CreateUser_create svc cfg now request (db, log) =
      (Inr (Response c (CreatedData u p t)), s')"
    by auto
  then show ?thesis by (rule create_created)
qed

theorem create_user_token_witness:
  "fst (CreateUser (ref_services ''s3cr3t'' 1000) config0 1000
      (create_req (Some ''carol@example.org'') ''carol'') (store0, [])) =
     Inr (Response OK (CreatedData carol (carol_profile ''carol'') carol_token)) \<and>
   carol_token =
     \<lparr> tok_payload = [(''email'', user_email carol)], tok_secret = cfg_secret config0,
       tok_issuedAt = 1000, tok_expiresAt = 1000 + 168 * 60 * 60 \<rparr>"
proof -
  let ?out = "CreateUser (ref_services ''s3cr3t'' 1000) config0 1000
      (create_req (Some ''carol@example.org'') ''carol'') (store0, [])"
  have a: "fst ?out = Inr (Response OK (CreatedData carol (carol_profile ''carol'') carol_token))"
    by (simp add: sample_defs CreateUser_create_def jwt_sign_168h Let_def)
  then have "?out = (Inr (Response OK (CreatedData carol (carol_profile ''carol'') carol_token)),
      snd ?out)"
    by (metis prod.collapse)
  from create_user_token [OF this] a show ?thesis by blast
qed

subsection \<open>Setting the active profile\<close>

text \<open>
  C3, as the claim states it, fails when the named profile does not exist: the lookup
  throws its \<open>NOT_FOUND\<close> error before the owner is compared, and the catch block
  answers with that status. The user \<open>ui\<close> names \<open>pzz\<close>, which is no profile.
\<close>

theorem set_active_profile_missing_counterexample:
  "getProfile (ref_services ''s3cr3t'' 1000) ''pzz'' store0 =
     Inl (HttpError NOT_FOUND ''The profile couldn't be found.'') \<and>
   SetActiveProfile (ref_services ''s3cr3t'' 1000) config0 (set_active_req bob (Some ''pzz''))
      (store0, []) =
     (Inr (Response NOT_FOUND (ReplyError ''The profile couldn't be found.''
        (Some (HttpError NOT_FOUND ''The profile couldn't be found.'')))), (store0, [])) \<and>
   NOT_FOUND \<noteq> UNAUTHORIZED"
  by (simp add: sample_defs StatusCodes)

text \<open>
  C3, amended. For a request that names a profile: when the lookup gives a profile
  whose owner is not the caller, the answer is \<open>UNAUTHORIZED\<close> and nothing changes; when
  the lookup throws an \<^verbatim>\<open>HttpError\<close>, as for a profile that does not exist, the answer
  has the status of that error; when it gives no profile, reading the owner throws
  and the error leaves the handler.
\<close>

theorem set_active_profile_lookup:
  assumes "\<not> falsy (sa_newProfileId (req_body request))"
  shows
   "(\<forall>p. getProfile svc (the (sa_newProfileId (req_body request))) db = Inr (Some p) \<and>
          user_id (sa_authUser (req_body request)) \<noteq> profile_userId p \<longrightarrow>
      SetActiveProfile svc cfg request (db, log) =
        (Inr (Response UNAUTHORIZED (ReplyError ''The user doesn't own the profile.'' None)),
         (db, log))) \<and>
    (\<forall>c m. getProfile svc (the (sa_newProfileId (req_body request))) db = Inl (HttpError c m) \<longrightarrow>
      SetActiveProfile svc cfg request (db, log) =
        (Inr (Response c (ReplyError m (Some (HttpError c m)))), (db, log))) \<and>
    (getProfile svc (the (sa_newProfileId (req_body request))) db = Inr None \<longrightarrow>
      (\<exists>x. SetActiveProfile svc cfg request (db, log) = (Inl (OtherError x), (db, log)))) \<and>
    UNAUTHORIZED = 401"
  using assms by (simp add: Let_def UNAUTHORIZED_def)

text \<open>The user \<open>ui\<close> names the profile \<open>pii\<close>, which belongs to \<open>u\<close>.\<close>

theorem set_active_profile_lookup_witness:
  "getProfile (ref_services ''s3cr3t'' 1000) ''pii'' store0 = Inr (Some abee) \<and>
   user_id bob \<noteq> profile_userId abee \<and>
   SetActiveProfile (ref_services ''s3cr3t'' 1000) config0 (set_active_req bob (Some ''pii''))
      (store0, []) =
     (Inr (Response UNAUTHORIZED (ReplyError ''The user doesn't own the profile.'' None)),
      (store0, []))"
proof -
  have f: "\<not> falsy (sa_newProfileId (req_body (set_active_req bob (Some ''pii''))))"
    by (simp add: set_active_req_def falsy_def)
  have g: "getProfile (ref_services ''s3cr3t'' 1000)
      (the (sa_newProfileId (req_body (set_active_req bob (Some ''pii''))))) store0 =
      Inr (Some abee)"
    by (simp add: sample_defs)
  have g': "getProfile (ref_services ''s3cr3t'' 1000) ''pii'' store0 = Inr (Some abee)"
    using g by (simp add: set_active_req_def)
  have o: "user_id (sa_authUser (req_body (set_active_req bob (Some ''pii'')))) \<noteq>
      profile_userId abee"
    by (simp add: set_active_req_def bob_def abee_def)
  have o': "user_id bob \<noteq> profile_userId abee"
    by (simp add: bob_def abee_def)
  from set_active_profile_lookup [OF f, of "ref_services ''s3cr3t'' 1000" store0 config0 "[]"]
  have "SetActiveProfile (ref_services ''s3cr3t'' 1000) config0
      (set_active_req bob (Some ''pii'')) (store0, []) =
     (Inr (Response UNAUTHORIZED (ReplyError ''The user doesn't own the profile.'' None)),
      (store0, []))"
    using g o by blast
  with g' o' show ?thesis by (intro conjI)
qed

subsection \<open>The handlers that are not implemented\<close>

text \<open>
  C6. \<open>UpdateUser\<close>, \<open>DeleteUser\<close> and \<open>GetUserDataPackage\<close> answer every request, of
  whatever shape, with \<open>NOT_IMPLEMENTED\<close> (501) and the same error body, and give
  back the database and the analytics calls as they got them.
\<close>

theorem stubs_not_implemented:
  "UpdateUser request s =
     (Inr (Response NOT_IMPLEMENTED (ReplyError ''Sorry, this is not implemented yet.'' None)), s) \<and>
   DeleteUser request' s =
     (Inr (Response NOT_IMPLEMENTED (ReplyError ''Sorry, this is not implemented yet.'' None)), s) \<and>
   GetUserDataPackage request'' s =
     (Inr (Response NOT_IMPLEMENTED (ReplyError ''Sorry, this is not implemented yet.'' None)), s) \<and>
   NOT_IMPLEMENTED = 501"
  by (simp add: UpdateUser_def DeleteUser_def GetUserDataPackage_def NOT_IMPLEMENTED_def)

subsection \<open>The message for a missing field\<close>

text \<open>
  C10. A \<^verbatim>\<open>/user/reset-password\<close> request without token or without password, and a
  \<^verbatim>\<open>/user/set-active-profile\<close> request without \<open>newProfileId\<close>, are answered with
  \<open>BAD_REQUEST\<close> (400) and the message "No email was provided.".
\<close>

theorem missing_field_message:
  "(falsy (rs_token (req_body request)) \<or> falsy (rs_password (req_body request)) \<longrightarrow>
      ResetUserPassword svc request (db, log) =
        (Inr (Response BAD_REQUEST (ReplyError ''No email was provided.'' None)), (db, log))) \<and>
   (falsy (sa_newProfileId (req_body request')) \<longrightarrow>
      SetActiveProfile svc cfg request' (db, log) =
        (Inr (Response BAD_REQUEST (ReplyError ''No email was provided.'' None)), (db, log))) \<and>
   BAD_REQUEST = 400"
  by (simp add: Let_def BAD_REQUEST_def)

text \<open>A reset request that has the password but no token, and a request of the user
  \<open>ui\<close> that names no profile.\<close>

theorem missing_field_message_witness:
  "falsy (rs_token (req_body (reset_req None (Some ''new-pw'')))) \<and>
   ResetUserPassword (ref_services ''s3cr3t'' 1000) (reset_req None (Some ''new-pw''))
      (store0, []) =
     (Inr (Response BAD_REQUEST (ReplyError ''No email was provided.'' None)), (store0, [])) \<and>
   falsy (sa_newProfileId (req_body (set_active_req bob None))) \<and>
   SetActiveProfile (ref_services ''s3cr3t'' 1000) config0 (set_active_req bob None)
      (store0, []) =
     (Inr (Response BAD_REQUEST (ReplyError ''No email was provided.'' None)), (store0, []))"
proof -
  have a: "falsy (rs_token (req_body (reset_req None (Some ''new-pw''))))"
    by (simp add: reset_req_def falsy_def)
  have b: "falsy (sa_newProfileId (req_body (set_active_req bob None)))"
    by (simp add: set_active_req_def falsy_def)
  note t = missing_field_message
    [of "reset_req None (Some ''new-pw'')" "ref_services ''s3cr3t'' 1000" store0 "[]"
        "set_active_req bob None" config0]
  from t a have "ResetUserPassword (ref_services ''s3cr3t'' 1000)
      (reset_req None (Some ''new-pw'')) (store0, []) =
     (Inr (Response BAD_REQUEST (ReplyError ''No email was provided.'' None)), (store0, []))"
    by blast
  moreover from t b have "SetActiveProfile (ref_services ''s3cr3t'' 1000) config0
      (set_active_req bob None) (store0, []) =
     (Inr (Response BAD_REQUEST (ReplyError ''No email was provided.'' None)), (store0, []))"
    by blast
  ultimately show ?thesis using a b by (intro conjI)
qed

subsection \<open>Errors thrown in a handler\<close>

lemma CreateUser_reaches_creation:
  assumes "reaches_creation svc request db"
  shows "CreateUser svc cfg now request (db, log) = CreateUser_create svc cfg now request (db, log)"
proof (cases "falsy (cb_email (req_body request)) \<or> falsy (cb_password (req_body request))")
  case True
  with assms show ?thesis
    by (auto simp: reaches_creation_def Let_def)
next
  case False
  then have e: "\<not> falsy (cb_email (req_body request))"
    and p: "\<not> falsy (cb_password (req_body request))"
    by simp_all
  show ?thesis
  proof (cases "getProfileByHandle svc (cb_handle (req_body request)) False db")
    case (Inl err)
    show ?thesis
    proof (cases err)
      case (HttpError c m)
      with assms e p Inl have "c = NOT_FOUND"
        by (simp add: reaches_creation_def Let_def split: if_splits)
      with e p Inl HttpError show ?thesis
        by (simp add: Let_def)
    next
      case (OtherError x)
      with e p Inl show ?thesis
        by (simp add: Let_def)
    qed
  next
    case (Inr r)
    show ?thesis
    proof (cases r)
      case None
      with e p Inr show ?thesis
        by (simp add: Let_def)
    next
      case (Some q)
      with assms e p Inr show ?thesis
        by (simp add: reaches_creation_def Let_def)
    qed
  qed
qed

lemma CreateUser_create_createUser_throws:
  "createUser svc (the (cb_email (req_body request))) (the (cb_password (req_body request)))
      (cb_name (req_body request)) db = (Inl e, db1) \<Longrightarrow>
   CreateUser_create svc cfg now request (db, log) = (catch_http e, (db1, log))"
  by (simp add: CreateUser_create_def Let_def)

lemma CreateUser_create_createProfile_throws:
  "createUser svc (the (cb_email (req_body request))) (the (cb_password (req_body request)))
      (cb_name (req_body request)) db = (Inr u, db1) \<Longrightarrow>
   createProfile svc (user_id u) (cb_handle (req_body request)) db1 = (Inl e, db2) \<Longrightarrow>
   CreateUser_create svc cfg now request (db, log) = (catch_http e, (db2, log))"
  by (simp add: CreateUser_create_def Let_def)

lemma CreateUser_create_setActiveProfile_throws:
  "createUser svc (the (cb_email (req_body request))) (the (cb_password (req_body request)))
      (cb_name (req_body request)) db = (Inr u, db1) \<Longrightarrow>
   createProfile svc (user_id u) (cb_handle (req_body request)) db1 = (Inr p, db2) \<Longrightarrow>
   setActiveProfile svc (user_id u) (profile_id p) db2 = (Inl e, db3) \<Longrightarrow>
   CreateUser_create svc cfg now request (db, log) = (catch_http e, (db3, log))"
  by (simp add: CreateUser_create_def Let_def)

lemma reaches_creation_not_found:
  "\<not> falsy (cb_email (req_body request)) \<Longrightarrow> \<not> falsy (cb_password (req_body request)) \<Longrightarrow>
   getProfileByHandle svc (cb_handle (req_body request)) False db = Inl (HttpError NOT_FOUND m) \<Longrightarrow>
   reaches_creation svc request db"
  by (simp add: reaches_creation_def Let_def)

lemma reaches_creation_no_profile:
  "\<not> falsy (cb_email (req_body request)) \<Longrightarrow> \<not> falsy (cb_password (req_body request)) \<Longrightarrow>
   getProfileByHandle svc (cb_handle (req_body request)) False db = Inr None \<Longrightarrow>
   reaches_creation svc request db"
  by (simp add: reaches_creation_def Let_def)

lemma CreateUser_createUser_throws:
  assumes "reaches_creation svc request db"
    and "createUser svc (the (cb_email (req_body request))) (the (cb_password (req_body request)))
      (cb_name (req_body request)) db = (Inl e, db1)"
  shows "CreateUser svc cfg now request (db, log) = (catch_http e, (db1, log))"
  by (simp only: CreateUser_reaches_creation [OF assms(1)]
      CreateUser_create_createUser_throws [OF assms(2)])

lemma CreateUser_createProfile_throws:
  assumes "reaches_creation svc request db"
    and "createUser svc (the (cb_email (req_body request))) (the (cb_password (req_body request)))
      (cb_name (req_body request)) db = (Inr u, db1)"
    and "createProfile svc (user_id u) (cb_handle (req_body request)) db1 = (Inl e, db2)"
  shows "CreateUser svc cfg now request (db, log) = (catch_http e, (db2, log))"
  by (simp only: CreateUser_reaches_creation [OF assms(1)]
      CreateUser_create_createProfile_throws [OF assms(2) assms(3)])

lemma CreateUser_setActiveProfile_throws:
  assumes "reaches_creation svc request db"
    and "createUser svc (the (cb_email (req_body request))) (the (cb_password (req_body request)))
      (cb_name (req_body request)) db = (Inr u, db1)"
    and "createProfile svc (user_id u) (cb_handle (req_body request)) db1 = (Inr p, db2)"
    and "setActiveProfile svc (user_id u) (profile_id p) db2 = (Inl e, db3)"
  shows "CreateUser svc cfg now request (db, log) = (catch_http e, (db3, log))"
  by (simp only: CreateUser_reaches_creation [OF assms(1)]
      CreateUser_create_setActiveProfile_throws [OF assms(2) assms(3) assms(4)])

text \<open>
  C9, as the claim states it, fails in \<^verbatim>\<open>/user/create\<close>: the handle lookup throws an
  \<^verbatim>\<open>HttpError\<close> with the status \<open>NOT_FOUND\<close> when the handle \<open>carol\<close> is free, and the
  handler does not answer with that status: it goes on, creates the user and answers
  \<open>OK\<close>.
\<close>

theorem handle_lookup_not_found_counterexample:
  "getProfileByHandle (ref_services ''s3cr3t'' 1000) ''carol'' False store0 =
     Inl (HttpError NOT_FOUND ''The profile couldn't be found.'') \<and>
   fst (CreateUser (ref_services ''s3cr3t'' 1000) config0 1000
      (create_req (Some ''carol@example.org'') ''carol'') (store0, [])) =
     Inr (Response OK (CreatedData carol (carol_profile ''carol'') carol_token)) \<and>
   OK \<noteq> NOT_FOUND"
  by (simp add: sample_defs CreateUser_create_def jwt_sign_168h Let_def StatusCodes)

text \<open>
  C9, amended. An error \<open>e\<close> thrown by a service call that a handler awaits under its
  catch block is answered by \<open>catch_http e\<close>: a response with the status code of the
  error and an error body when it is an \<^verbatim>\<open>HttpError\<close>, the error itself, uncaught,
  otherwise. The calls are: the login; in the handler \<open>CreateUser\<close>, whenever it gets
  to them (in particular after a lookup that threw \<open>NOT_FOUND\<close> or resolved to no
  profile), the creation of the user, the creation of the profile and the setting of
  the active profile; the sending of the reset email; the change of the password; and
  the profile lookup of \<^verbatim>\<open>/user/set-active-profile\<close>. For the handle lookup of
  \<^verbatim>\<open>/user/create\<close> an \<^verbatim>\<open>HttpError\<close> is answered so when its status is not
  \<open>NOT_FOUND\<close>; with \<open>NOT_FOUND\<close> the handler goes on to create the user.
\<close>

theorem thrown_errors_translated:
  "(\<forall>e db'. \<not> falsy (lb_email (req_body lreq)) \<and> \<not> falsy (lb_password (req_body lreq)) \<and>
       loginUser svc (the (lb_email (req_body lreq))) (the (lb_password (req_body lreq))) db =
         (Inl e, db') \<longrightarrow>
       LoginUser svc cfg lreq (db, log) = (catch_http e, (db', log))) \<and>
   (\<forall>c m. \<not> falsy (cb_email (req_body creq)) \<and> \<not> falsy (cb_password (req_body creq)) \<and>
       getProfileByHandle svc (cb_handle (req_body creq)) False db = Inl (HttpError c m) \<longrightarrow>
       CreateUser svc cfg now creq (db, log) =
         (if c \<noteq> NOT_FOUND then (catch_http (HttpError c m), (db, log))
          else CreateUser_create svc cfg now creq (db, log))) \<and>
   (\<forall>m. \<not> falsy (cb_email (req_body creq)) \<and> \<not> falsy (cb_password (req_body creq)) \<and>
       (getProfileByHandle svc (cb_handle (req_body creq)) False db = Inl (HttpError NOT_FOUND m) \<or>
        getProfileByHandle svc (cb_handle (req_body creq)) False db = Inr None) \<longrightarrow>
       reaches_creation svc creq db) \<and>
   (\<forall>e db1. reaches_creation svc creq db \<and>
       createUser svc (the (cb_email (req_body creq))) (the (cb_password (req_body creq)))
         (cb_name (req_body creq)) db = (Inl e, db1) \<longrightarrow>
       CreateUser svc cfg now creq (db, log) = (catch_http e, (db1, log))) \<and>
   (\<forall>u db1 e db2. reaches_creation svc creq db \<and>
       createUser svc (the (cb_email (req_body creq))) (the (cb_password (req_body creq)))
         (cb_name (req_body creq)) db = (Inr u, db1) \<and>
       createProfile svc (user_id u) (cb_handle (req_body creq)) db1 = (Inl e, db2) \<longrightarrow>
       CreateUser svc cfg now creq (db, log) = (catch_http e, (db2, log))) \<and>
   (\<forall>u db1 p db2 e db3. reaches_creation svc creq db \<and>
       createUser svc (the (cb_email (req_body creq))) (the (cb_password (req_body creq)))
         (cb_name (req_body creq)) db = (Inr u, db1) \<and>
       createProfile svc (user_id u) (cb_handle (req_body creq)) db1 = (Inr p, db2) \<and>
       setActiveProfile svc (user_id u) (profile_id p) db2 = (Inl e, db3) \<longrightarrow>
       CreateUser svc cfg now creq (db, log) = (catch_http e, (db3, log))) \<and>
   (\<forall>e db'. \<not> falsy (rq_email (req_body rreq)) \<and>
       sendPasswordResetEmail svc (the (rq_email (req_body rreq))) db = (Inl e, db') \<longrightarrow>
       UserRequestResetPassword svc cfg rreq (db, log) = (catch_http e, (db', log))) \<and>
   (\<forall>e db'. \<not> falsy (rs_token (req_body preq)) \<and> \<not> falsy (rs_password (req_body preq)) \<and>
       setPasswordWithToken svc (the (rs_token (req_body preq)))
         (the (rs_password (req_body preq))) db = (Inl e, db') \<longrightarrow>
       ResetUserPassword svc preq (db, log) = (catch_http e, (db', log))) \<and>
   (\<forall>e. \<not> falsy (sa_newProfileId (req_body sreq)) \<and>
       getProfile svc (the (sa_newProfileId (req_body sreq))) db = Inl e \<longrightarrow>
       SetActiveProfile svc cfg sreq (db, log) = (catch_http e, (db, log))) \<and>
   (\<forall>c m. (catch_http (HttpError c m) :: exn + 'a response) =
       Inr (Response c (ReplyError m (Some (HttpError c m))))) \<and>
   (\<forall>x. (catch_http (OtherError x) :: exn + 'a response) = Inl (OtherError x))"
    (is "?login \<and> ?lookup \<and> ?reach \<and> ?cu \<and> ?cp \<and> ?sap \<and> ?reset \<and> ?pw \<and> ?get \<and>
         ?http \<and> ?other")
    for svc :: "('db, 'a) services"
proof (intro conjI)
  show ?login by (simp add: Let_def)
  show ?lookup by (simp add: Let_def)
  show ?reach
    by (intro allI impI; elim conjE disjE;
        ((rule reaches_creation_not_found; assumption) |
         (rule reaches_creation_no_profile; assumption)))
  show ?cu
    by (intro allI impI; elim conjE; rule CreateUser_createUser_throws; assumption)
  show ?cp
    by (intro allI impI; elim conjE; rule CreateUser_createProfile_throws; assumption)
  show ?sap
    by (intro allI impI; elim conjE; rule CreateUser_setActiveProfile_throws; assumption)
  show ?reset by (simp add: Let_def)
  show ?pw by (simp add: Let_def)
  show ?get by (simp add: Let_def)
  show ?http by simp
  show ?other by simp
qed

text \<open>A login with a wrong password, which the service refuses with \<open>UNAUTHORIZED\<close>; a
  login while the connection to the database is down; and a \<^verbatim>\<open>/user/create\<close> request
  for the free handle \<open>carol\<close> when the insertion of the user fails.\<close>

theorem thrown_errors_translated_witness:
  "LoginUser (ref_services ''s3cr3t'' 1000) config0
      (login_req ''alice@example.org'' ''guess'') (store0, []) =
     (Inr (Response UNAUTHORIZED (ReplyError ''The password is incorrect.''
        (Some (HttpError UNAUTHORIZED ''The password is incorrect.'')))), (store0, [])) \<and>
   LoginUser login_down config0 (login_req ''alice@example.org'' ''secret-a'') (store0, []) =
     (Inl (OtherError ''Connection terminated unexpectedly''), (store0, [])) \<and>
   reaches_creation create_down (create_req (Some ''carol@example.org'') ''carol'') store0 \<and>
   CreateUser create_down config0 1000 (create_req (Some ''carol@example.org'') ''carol'')
      (store0, []) =
     (Inr (Response INTERNAL_SERVER_ERROR
        (ReplyError ''Failed to add a new user because of an internal server error.''
           (Some (HttpError INTERNAL_SERVER_ERROR
              ''Failed to add a new user because of an internal server error.'')))),
      (store0, []))"
proof -
  let ?guess = "login_req ''alice@example.org'' ''guess''"
  let ?right = "login_req ''alice@example.org'' ''secret-a''"
  let ?create = "create_req (Some ''carol@example.org'') ''carol''"
  have a: "\<not> falsy (lb_email (req_body ?guess)) \<and> \<not> falsy (lb_password (req_body ?guess)) \<and>
     loginUser (ref_services ''s3cr3t'' 1000) (the (lb_email (req_body ?guess)))
       (the (lb_password (req_body ?guess))) store0 =
     (Inl (HttpError UNAUTHORIZED ''The password is incorrect.''), store0)"
    by (simp add: sample_defs)
  have b: "\<not> falsy (lb_email (req_body ?right)) \<and> \<not> falsy (lb_password (req_body ?right)) \<and>
     loginUser login_down (the (lb_email (req_body ?right)))
       (the (lb_password (req_body ?right))) store0 =
     (Inl (OtherError ''Connection terminated unexpectedly''), store0)"
    by (simp add: sample_defs)
  have c1: "\<not> falsy (cb_email (req_body ?create)) \<and> \<not> falsy (cb_password (req_body ?create)) \<and>
     (getProfileByHandle create_down (cb_handle (req_body ?create)) False store0 =
        Inl (HttpError NOT_FOUND ''The profile couldn't be found.'') \<or>
      getProfileByHandle create_down (cb_handle (req_body ?create)) False store0 = Inr None)"
    by (simp add: sample_defs)
  have c2: "createUser create_down (the (cb_email (req_body ?create)))
       (the (cb_password (req_body ?create))) (cb_name (req_body ?create)) store0 =
     (Inl (HttpError INTERNAL_SERVER_ERROR
        ''Failed to add a new user because of an internal server error.''), store0)"
    by (simp add: sample_defs)
  note t = thrown_errors_translated
    [where svc = create_down and creq = ?create and db = store0 and cfg = config0
       and log = "[]" and now = 1000]
  have r: "reaches_creation create_down ?create store0"
    by (rule t [THEN conjunct2, THEN conjunct2, THEN conjunct1, THEN spec, THEN mp, OF c1])
  have c: "CreateUser create_down config0 1000 ?create (store0, []) =
     (catch_http (HttpError INTERNAL_SERVER_ERROR
        ''Failed to add a new user because of an internal server error.''), (store0, []))"
    by (rule t [THEN conjunct2, THEN conjunct2, THEN conjunct2, THEN conjunct1,
          THEN spec, THEN spec, THEN mp, OF conjI [OF r c2]])
  from thrown_errors_translated
    [where svc = "ref_services ''s3cr3t'' 1000" and lreq = ?guess and db = store0
       and cfg = config0 and log = "[]", THEN conjunct1] a
  have "LoginUser (ref_services ''s3cr3t'' 1000) config0 ?guess (store0, []) =
     (catch_http (HttpError UNAUTHORIZED ''The password is incorrect.''), (store0, []))"
    by blast
  moreover
  from thrown_errors_translated
    [where svc = login_down and lreq = ?right and db = store0
       and cfg = config0 and log = "[]", THEN conjunct1] b
  have "LoginUser login_down config0 ?right (store0, []) =
     (catch_http (OtherError ''Connection terminated unexpectedly''), (store0, []))"
    by blast
  ultimately show ?thesis
    using r c by (simp only: catch_http_simps simp_thms)
qed

end
